theory Spec2Isabelle
  imports
    Main
    "HOL-Library.AList"
    "HOL-Library.Char_ord"
    "HOL-Library.List_Lexorder"
    "HOL-Library.Product_Lexorder"
    "HOL-Library.Multiset"
begin

section \<open>Classroom reservations: the reservation store of reservation\_db.py\<close>

text \<open>
  A shallow embedding of \<^verbatim>\<open>src/reservation_db.py\<close>. Python names that start with an
  underscore lose it (\<^verbatim>\<open>_parse_time\<close> is \<open>parse_time\<close>, \<^verbatim>\<open>_next_id\<close> is \<open>next_id\<close>).
  Strings are \<open>char list\<close>s and stand for ASCII text: a character above 127 is, for the
  parsers below, just a character that is neither a digit nor white space. (On text
  that is not ASCII the interpreter accepts more: \<^verbatim>\<open>int\<close> also strips the white space
  U+0085 and U+00A0 and reads the decimal digits of other scripts. No statement below
  evaluates a parser on such text.)
\<close>

subsection \<open>Values of the datetime module\<close>

text \<open>
  \<^verbatim>\<open>datetime.time\<close> as \<^verbatim>\<open>time(hour, minute)\<close> builds it: second and microsecond are 0
  and there is no time zone. \<^verbatim>\<open>datetime.date\<close> and the naive \<^verbatim>\<open>datetime\<close> that
  \<^verbatim>\<open>datetime.now()\<close> returns.
\<close>

record pytime =
  hour :: int
  minute :: int

record pydate =
  year :: int
  month :: int
  day :: int

record pydatetime =
  dt_year :: int
  dt_month :: int
  dt_day :: int
  dt_hour :: int
  dt_minute :: int
  dt_second :: int
  dt_microsecond :: int

text \<open>\<^verbatim>\<open>datetime.combine(d, t)\<close> for a time built by \<^verbatim>\<open>time(hour, minute)\<close>.\<close>

definition combine :: "pydate \<Rightarrow> pytime \<Rightarrow> pydatetime" where
  "combine d t =
     \<lparr>dt_year = year d, dt_month = month d, dt_day = day d,
      dt_hour = hour t, dt_minute = minute t, dt_second = 0, dt_microsecond = 0\<rparr>"

text \<open>Naive datetimes compare field by field, most significant first.\<close>

definition datetime_key :: "pydatetime \<Rightarrow> int \<times> int \<times> int \<times> int \<times> int \<times> int \<times> int" where
  "datetime_key x =
     (dt_year x, dt_month x, dt_day x, dt_hour x, dt_minute x, dt_second x, dt_microsecond x)"

definition datetime_less :: "pydatetime \<Rightarrow> pydatetime \<Rightarrow> bool" where
  "datetime_less a b = (datetime_key a < datetime_key b)"

subsection \<open>Slot shape and overlap (lines 57 to 84)\<close>

text \<open>
  \<^verbatim>\<open>_is_past_datetime\<close> reads the wall clock; the clock's value \<open>now\<close> is an argument here.
\<close>

definition is_past_datetime :: "pydatetime \<Rightarrow> pydate \<Rightarrow> pytime \<Rightarrow> bool" where
  "is_past_datetime now reservation_date start =
     (let reservation_datetime = combine reservation_date start
      in datetime_less reservation_datetime now)"

definition is_valid_time_slot :: "pytime \<Rightarrow> pytime \<Rightarrow> bool" where
  "is_valid_time_slot start finish =
     (if minute start \<noteq> 0 \<or> minute finish \<noteq> 0 then False
      else (let expected_end_hour = (hour start + 1) mod 24
            in hour finish = expected_end_hour))"

definition time_to_minutes :: "pytime \<Rightarrow> int" where
  "time_to_minutes t = hour t * 60 + minute t"

definition is_time_overlap :: "pytime \<Rightarrow> pytime \<Rightarrow> pytime \<Rightarrow> pytime \<Rightarrow> bool" where
  "is_time_overlap start1 end1 start2 end2 =
     (let start1_min = time_to_minutes start1;
          end1_min = time_to_minutes end1;
          start2_min = time_to_minutes start2;
          end2_min = time_to_minutes end2
      in start1_min < end2_min \<and> start2_min < end1_min)"

text \<open>A time of day \<open>H:M\<close>, and the range of fields a \<^verbatim>\<open>datetime.time\<close> can hold.\<close>

definition at :: "int \<Rightarrow> int \<Rightarrow> pytime" where
  "at h m = \<lparr>hour = h, minute = m\<rparr>"

definition time_of_day :: "pytime \<Rightarrow> bool" where
  "time_of_day t = (0 \<le> hour t \<and> hour t \<le> 23 \<and> 0 \<le> minute t \<and> minute t \<le> 59)"

subsection \<open>Messages and exceptions\<close>

text \<open>
  The texts the module returns or raises are Korean string literals; each constructor
  stands for one of them, with the interpolated string as its argument:
  \<^item> \<open>TimeFormat t\<close>: the f-string of line 48, carrying \<^verbatim>\<open>time_str\<close>;
  \<^item> \<open>DateFormat d\<close>: the f-string of line 55, carrying \<^verbatim>\<open>date_str\<close>;
  \<^item> \<open>PastTime\<close>: line 105; \<open>SlotShape\<close>: line 109; \<open>SlotConflict\<close>: line 120;
  \<^item> \<open>Created\<close>: line 135; \<open>NotFound\<close>: line 167; \<open>NotOwner\<close>: line 171;
    \<open>Cancelled\<close>: line 175;
  \<^item> \<open>LibraryText\<close>: the text of a ValueError raised inside the standard library, which
    lines 47 and 54 replace before it can leave the parser.
  The literals differ pairwise, as the constructors do.
\<close>

datatype message =
    TimeFormat string
  | DateFormat string
  | PastTime
  | SlotShape
  | SlotConflict
  | Created
  | NotFound
  | NotOwner
  | Cancelled
  | LibraryText

datatype exn = ValueError message | OverflowError

subsection \<open>The standard library's parsers\<close>

text \<open>\<^verbatim>\<open>str.split(sep)\<close> for a one-character separator: always at least one part.\<close>

fun split_sep :: "char \<Rightarrow> string \<Rightarrow> string list" where
  "split_sep sep [] = [[]]"
| "split_sep sep (c # cs) =
     (if c = sep then [] # split_sep sep cs
      else (case split_sep sep cs of
              [] \<Rightarrow> [[c]]
            | p # ps \<Rightarrow> (c # p) # ps))"

definition is_space :: "char \<Rightarrow> bool" where
  "is_space c = (c \<in> set [CHR 0x09, CHR 0x0A, CHR 0x0B, CHR 0x0C, CHR 0x0D, CHR 0x20])"

definition is_digit :: "char \<Rightarrow> bool" where
  "is_digit c = (c \<in> set ''0123456789'')"

definition digit_of :: "char \<Rightarrow> int" where
  "digit_of c = int (of_char c) - 48"

definition strip :: "string \<Rightarrow> string" where
  "strip s = rev (dropWhile is_space (rev (dropWhile is_space s)))"

text \<open>
  The digits of a decimal literal: a digit, then digits each optionally preceded by one
  underscore. \<open>None\<close> for any other text.
\<close>

fun digit_run :: "string \<Rightarrow> int list option" where
  "digit_run [] = None"
| "digit_run [c] = (if is_digit c then Some [digit_of c] else None)"
| "digit_run (c # d # cs) =
     (if \<not> is_digit c then None
      else if d = CHR ''_'' then map_option (\<lambda>ds. digit_of c # ds) (digit_run cs)
      else map_option (\<lambda>ds. digit_of c # ds) (digit_run (d # cs)))"

definition decimal :: "int list \<Rightarrow> int" where
  "decimal ds = foldl (\<lambda>a d. 10 * a + d) 0 ds"

text \<open>
  \<^verbatim>\<open>int(s)\<close> on a string, base 10: surrounding white space, an optional sign, the digits.
  \<open>None\<close> is ValueError, which is also what a literal of more than 4300 digits raises
  (the interpreter's default limit on integer strings).
\<close>

definition py_int :: "string \<Rightarrow> int option" where
  "py_int s =
     (let t = strip s;
          negative = (case t of [] \<Rightarrow> False | c # _ \<Rightarrow> c = CHR ''-'');
          body = (case t of [] \<Rightarrow> []
                  | c # r \<Rightarrow> if c = CHR ''-'' \<or> c = CHR ''+'' then r else t)
      in case digit_run body of
           None \<Rightarrow> None
         | Some ds \<Rightarrow>
             if length ds > 4300 then None
             else Some (if negative then - decimal ds else decimal ds))"

text \<open>
  \<^verbatim>\<open>datetime.time(hour, minute)\<close> (CPython): the arguments are first converted to C ints,
  which raises OverflowError outside 32 bits, and only then checked against 0..23 and
  0..59, which raises ValueError.
\<close>

definition c_int :: "int \<Rightarrow> bool" where
  "c_int n = (- 2147483648 \<le> n \<and> n \<le> 2147483647)"

definition time_new :: "int \<Rightarrow> int \<Rightarrow> exn + pytime" where
  "time_new h m =
     (if \<not> c_int h \<or> \<not> c_int m then Inl OverflowError
      else if \<not> (0 \<le> h \<and> h \<le> 23) then Inl (ValueError LibraryText)
      else if \<not> (0 \<le> m \<and> m \<le> 59) then Inl (ValueError LibraryText)
      else Inr \<lparr>hour = h, minute = m\<rparr>)"

text \<open>
  \<^verbatim>\<open>datetime.strptime(s, "%Y-%m-%d").date()\<close>. The directives match: \<^verbatim>\<open>%Y\<close> four digits;
  \<^verbatim>\<open>%m\<close> one of 1..9, 01..09, 10..12; \<^verbatim>\<open>%d\<close> one of 1..9, 01..09, 10..31, or a space and
  one of 1..9. The whole string must be consumed. Year 0 and a day beyond the month's
  length are refused when the date is built. Every failure is a ValueError.
\<close>

definition year_field :: "string \<Rightarrow> int option" where
  "year_field y =
     (if length y = 4 \<and> list_all is_digit y then Some (decimal (map digit_of y)) else None)"

definition month_field :: "string \<Rightarrow> int option" where
  "month_field m =
     (case m of
        [a] \<Rightarrow> if is_digit a \<and> a \<noteq> CHR ''0'' then Some (digit_of a) else None
      | [a, b] \<Rightarrow>
          if a = CHR ''1'' \<and> b \<in> set ''012'' then Some (10 + digit_of b)
          else if a = CHR ''0'' \<and> is_digit b \<and> b \<noteq> CHR ''0'' then Some (digit_of b)
          else None
      | _ \<Rightarrow> None)"

definition day_field :: "string \<Rightarrow> int option" where
  "day_field d =
     (case d of
        [a] \<Rightarrow> if is_digit a \<and> a \<noteq> CHR ''0'' then Some (digit_of a) else None
      | [a, b] \<Rightarrow>
          if a = CHR ''3'' \<and> b \<in> set ''01'' then Some (30 + digit_of b)
          else if a \<in> set ''12'' \<and> is_digit b then Some (10 * digit_of a + digit_of b)
          else if (a = CHR ''0'' \<or> a = CHR '' '') \<and> is_digit b \<and> b \<noteq> CHR ''0''
            then Some (digit_of b)
          else None
      | _ \<Rightarrow> None)"

definition is_leap :: "int \<Rightarrow> bool" where
  "is_leap y = (y mod 4 = 0 \<and> (y mod 100 \<noteq> 0 \<or> y mod 400 = 0))"

definition days_in_month :: "int \<Rightarrow> int \<Rightarrow> int" where
  "days_in_month y m =
     (if m = 2 then (if is_leap y then 29 else 28)
      else if m \<in> set [4, 6, 9, 11] then 30 else 31)"

definition strptime_ymd :: "string \<Rightarrow> exn + pydate" where
  "strptime_ymd s =
     (case split_sep (CHR ''-'') s of
        [y, m, d] \<Rightarrow>
          (case (year_field y, month_field m, day_field d) of
             (Some yy, Some mm, Some dd) \<Rightarrow>
               if yy < 1 \<or> days_in_month yy mm < dd then Inl (ValueError LibraryText)
               else Inr \<lparr>year = yy, month = mm, day = dd\<rparr>
           | _ \<Rightarrow> Inl (ValueError LibraryText))
      | _ \<Rightarrow> Inl (ValueError LibraryText))"

subsection \<open>Parsing the request's strings (lines 42 to 55)\<close>

text \<open>
  \<^verbatim>\<open>hour, minute = map(int, time_str.split(":"))\<close> needs exactly two parts, each an
  integer literal; anything else is a ValueError. Line 47 catches ValueError (and
  AttributeError, which a string cannot cause) and raises the module's own ValueError
  with the offending string. An OverflowError from \<^verbatim>\<open>time(hour, minute)\<close> is not caught.
\<close>

definition parse_time :: "string \<Rightarrow> exn + pytime" where
  "parse_time time_str =
     (case split_sep (CHR '':'') time_str of
        [a, b] \<Rightarrow>
          (case py_int a of
             None \<Rightarrow> Inl (ValueError (TimeFormat time_str))
           | Some h \<Rightarrow>
               (case py_int b of
                  None \<Rightarrow> Inl (ValueError (TimeFormat time_str))
                | Some m \<Rightarrow>
                    (case time_new h m of
                       Inl (ValueError _) \<Rightarrow> Inl (ValueError (TimeFormat time_str))
                     | Inl OverflowError \<Rightarrow> Inl OverflowError
                     | Inr t \<Rightarrow> Inr t)))
      | _ \<Rightarrow> Inl (ValueError (TimeFormat time_str)))"

definition parse_date :: "string \<Rightarrow> exn + pydate" where
  "parse_date date_str =
     (case strptime_ymd date_str of
        Inl (ValueError _) \<Rightarrow> Inl (ValueError (DateFormat date_str))
      | Inl OverflowError \<Rightarrow> Inl OverflowError
      | Inr d \<Rightarrow> Inr d)"

subsection \<open>The store (lines 6 to 40)\<close>

text \<open>
  A reservation is the dict stored under its id. \<^verbatim>\<open>RESERVATIONS\<close> is a Python dict, which
  keeps insertion order: an association list whose keys are distinct, read with
  \<open>map_of\<close>, written with \<open>AList.update\<close> (a new key goes to the end, a present key
  keeps its place) and \<open>AList.delete\<close>.
\<close>

record reservation =
  user_id :: string
  classroom_id :: int
  date :: string
  start_time :: string
  end_time :: string

text \<open>
  The file \<^verbatim>\<open>reservations.json\<close>: absent; \<open>Corrupt\<close>, when reading it raises one of
  the exceptions that line 21 catches (text that is not JSON, a key that is not an
  integer literal); or a JSON object holding the mapping and the counter. JSON text
  that is not an object is not a value of this type: there line 18 raises an
  AttributeError that line 21 does not catch, and the module does not load.
\<close>

datatype json_file = Missing | Corrupt | Document "(int \<times> reservation) list" int

record store =
  RESERVATIONS :: "(int \<times> reservation) list"
  next_id :: int
  reservations_file :: json_file

definition well_formed :: "store \<Rightarrow> bool" where
  "well_formed s = distinct (map fst (RESERVATIONS s))"

definition load_reservations :: "json_file \<Rightarrow> (int \<times> reservation) list \<times> int" where
  "load_reservations f =
     (case f of
        Document reservations n \<Rightarrow> (reservations, n)
      | _ \<Rightarrow> ([], 1))"

text \<open>Lines 37 to 40: the module's state when the server starts.\<close>

definition startup :: "json_file \<Rightarrow> store" where
  "startup f =
     (let (loaded_reservations, loaded_next_id) = load_reservations f
      in \<lparr>RESERVATIONS = loaded_reservations, next_id = loaded_next_id,
          reservations_file = f\<rparr>)"

text \<open>
  What the file system does with a write is an argument: the write goes through, or
  \<^verbatim>\<open>open\<close> fails and the file stays as it was, or the dump fails after the file was
  truncated. Line 34 swallows the IOError of both failures.
\<close>

datatype write_outcome = Written | OpenFailed | DumpFailed

definition save_reservations :: "write_outcome \<Rightarrow> store \<Rightarrow> store" where
  "save_reservations w s =
     (case w of
        Written \<Rightarrow> s\<lparr>reservations_file := Document (RESERVATIONS s) (next_id s)\<rparr>
      | OpenFailed \<Rightarrow> s
      | DumpFailed \<Rightarrow> s\<lparr>reservations_file := Corrupt\<rparr>)"

subsection \<open>Creating a reservation (lines 86 to 135)\<close>

text \<open>The body of the \<^verbatim>\<open>try\<close> of lines 96 to 99: the first exception ends it.\<close>

definition parse_request :: "string \<Rightarrow> string \<Rightarrow> string \<Rightarrow> exn + pydate \<times> pytime \<times> pytime" where
  "parse_request reservation_date start_time_str end_time_str =
     (case parse_date reservation_date of
        Inl e \<Rightarrow> Inl e
      | Inr reservation_date_obj \<Rightarrow>
          (case parse_time start_time_str of
             Inl e \<Rightarrow> Inl e
           | Inr start_time_obj \<Rightarrow>
               (case parse_time end_time_str of
                  Inl e \<Rightarrow> Inl e
                | Inr end_time_obj \<Rightarrow>
                    Inr (reservation_date_obj, start_time_obj, end_time_obj))))"

text \<open>
  The loop of lines 112 to 120 over \<^verbatim>\<open>RESERVATIONS.values()\<close>: \<open>Inr True\<close> when it
  returns at an overlap, \<open>Inr False\<close> when it runs to the end, \<open>Inl e\<close> when a stored
  time string makes \<^verbatim>\<open>_parse_time\<close> raise (no \<^verbatim>\<open>try\<close> surrounds the loop).
\<close>

fun find_conflict ::
  "int \<Rightarrow> string \<Rightarrow> pytime \<Rightarrow> pytime \<Rightarrow> reservation list \<Rightarrow> exn + bool" where
  "find_conflict cid reservation_date start_time_obj end_time_obj [] = Inr False"
| "find_conflict cid reservation_date start_time_obj end_time_obj (r # rs) =
     (if classroom_id r = cid \<and> date r = reservation_date then
        (case parse_time (start_time r) of
           Inl e \<Rightarrow> Inl e
         | Inr existing_start \<Rightarrow>
             (case parse_time (end_time r) of
                Inl e \<Rightarrow> Inl e
              | Inr existing_end \<Rightarrow>
                  if is_time_overlap start_time_obj end_time_obj existing_start existing_end
                  then Inr True
                  else find_conflict cid reservation_date start_time_obj end_time_obj rs))
      else find_conflict cid reservation_date start_time_obj end_time_obj rs)"

text \<open>
  The result is the pair of what the call does (\<open>Inr\<close> the returned tuple, \<open>Inl\<close> the
  exception that leaves the function) and the module's state afterwards.
\<close>

definition create_reservation ::
  "write_outcome \<Rightarrow> pydatetime \<Rightarrow> store \<Rightarrow> string \<Rightarrow> int \<Rightarrow> string \<Rightarrow> string \<Rightarrow> string
     \<Rightarrow> (exn + bool \<times> message) \<times> store" where
  "create_reservation w now s uid cid reservation_date start_time_str end_time_str =
     (case parse_request reservation_date start_time_str end_time_str of
        Inl (ValueError e) \<Rightarrow> (Inr (False, e), s)
      | Inl OverflowError \<Rightarrow> (Inl OverflowError, s)
      | Inr (reservation_date_obj, start_time_obj, end_time_obj) \<Rightarrow>
          if is_past_datetime now reservation_date_obj start_time_obj
          then (Inr (False, PastTime), s)
          else if \<not> is_valid_time_slot start_time_obj end_time_obj
          then (Inr (False, SlotShape), s)
          else
            (case find_conflict cid reservation_date start_time_obj end_time_obj
                    (map snd (RESERVATIONS s)) of
               Inl e \<Rightarrow> (Inl e, s)
             | Inr True \<Rightarrow> (Inr (False, SlotConflict), s)
             | Inr False \<Rightarrow>
                 (let reservation_id = next_id s;
                      s1 = s\<lparr>next_id := next_id s + 1\<rparr>;
                      s2 = s1\<lparr>RESERVATIONS :=
                             AList.update reservation_id
                               \<lparr>user_id = uid, classroom_id = cid, date = reservation_date,
                                start_time = start_time_str, end_time = end_time_str\<rparr>
                               (RESERVATIONS s1)\<rparr>
                  in (Inr (True, Created), save_reservations w s2))))"

subsection \<open>Queries, cancellation and deletion (lines 137 to 183)\<close>

definition get_reservation :: "store \<Rightarrow> int \<Rightarrow> reservation option" where
  "get_reservation s reservation_id = map_of (RESERVATIONS s) reservation_id"

text \<open>
  A row \<^verbatim>\<open>{**reservation, "id": res_id}\<close> is the pair of the id and the reservation.
  \<^verbatim>\<open>if date:\<close> holds for a string that is neither \<^verbatim>\<open>None\<close> nor empty. Python compares
  the key tuples of strings lexicographically, and its sort is stable, as \<open>sort_key\<close> is.
\<close>

definition get_classroom_reservations ::
  "store \<Rightarrow> int \<Rightarrow> string option \<Rightarrow> (int \<times> reservation) list" where
  "get_classroom_reservations s cid date_arg =
     (let reservations = filter (\<lambda>(res_id, r). classroom_id r = cid) (RESERVATIONS s);
          reservations' =
            (case date_arg of
               None \<Rightarrow> reservations
             | Some d \<Rightarrow>
                 if d \<noteq> [] then filter (\<lambda>(res_id, r). date r = d) reservations
                 else reservations)
      in sort_key (\<lambda>(res_id, r). (date r, start_time r)) reservations')"

definition cancel_reservation ::
  "write_outcome \<Rightarrow> store \<Rightarrow> int \<Rightarrow> string \<Rightarrow> (bool \<times> message) \<times> store" where
  "cancel_reservation w s reservation_id uid =
     (case map_of (RESERVATIONS s) reservation_id of
        None \<Rightarrow> ((False, NotFound), s)
      | Some r \<Rightarrow>
          if user_id r \<noteq> uid then ((False, NotOwner), s)
          else ((True, Cancelled),
                save_reservations w
                  (s\<lparr>RESERVATIONS := AList.delete reservation_id (RESERVATIONS s)\<rparr>)))"

definition delete_reservation :: "write_outcome \<Rightarrow> store \<Rightarrow> int \<Rightarrow> bool \<times> store" where
  "delete_reservation w s reservation_id =
     (if map_of (RESERVATIONS s) reservation_id \<noteq> None
      then (True,
            save_reservations w
              (s\<lparr>RESERVATIONS := AList.delete reservation_id (RESERVATIONS s)\<rparr>))
      else (False, s))"

subsection \<open>Sequences of requests\<close>

text \<open>
  The three mutating operations as requests, each with what its environment does (the
  write, the clock). A request whose call raises leaves the state as the call left it.
\<close>

datatype request =
    Create write_outcome pydatetime string int string string string
  | Cancel write_outcome int string
  | Delete write_outcome int

fun perform :: "store \<Rightarrow> request \<Rightarrow> store" where
  "perform s (Create w now uid cid d st en) = snd (create_reservation w now s uid cid d st en)"
| "perform s (Cancel w reservation_id uid) = snd (cancel_reservation w s reservation_id uid)"
| "perform s (Delete w reservation_id) = snd (delete_reservation w s reservation_id)"

definition run :: "store \<Rightarrow> request list \<Rightarrow> store" where
  "run s reqs = foldl perform s reqs"

subsection \<open>The properties of the store\<close>

text \<open>
  Two stored reservations overlap when both pairs of time strings parse and
  \<^verbatim>\<open>_is_time_overlap\<close> holds of the parsed times. No double booking: no two entries with
  different ids, the same classroom and the same date string overlap.
\<close>

definition reservations_overlap :: "reservation \<Rightarrow> reservation \<Rightarrow> bool" where
  "reservations_overlap r r' =
     (case (parse_time (start_time r), parse_time (end_time r),
            parse_time (start_time r'), parse_time (end_time r')) of
        (Inr s1, Inr e1, Inr s2, Inr e2) \<Rightarrow> is_time_overlap s1 e1 s2 e2
      | _ \<Rightarrow> False)"

definition no_double_booking :: "store \<Rightarrow> bool" where
  "no_double_booking s =
     (\<forall>(i, r) \<in> set (RESERVATIONS s). \<forall>(j, r') \<in> set (RESERVATIONS s).
        i \<noteq> j \<and> classroom_id r = classroom_id r' \<and> date r = date r'
          \<longrightarrow> \<not> reservations_overlap r r')"

text \<open>
  The same property read on the intervals themselves: two stored reservations share a
  minute when their time strings parse and the half-open intervals of minutes since
  midnight meet.
\<close>

definition share_a_minute :: "reservation \<Rightarrow> reservation \<Rightarrow> bool" where
  "share_a_minute r r' =
     (case (parse_time (start_time r), parse_time (end_time r),
            parse_time (start_time r'), parse_time (end_time r')) of
        (Inr s1, Inr e1, Inr s2, Inr e2) \<Rightarrow>
          {time_to_minutes s1 ..< time_to_minutes e1}
            \<inter> {time_to_minutes s2 ..< time_to_minutes e2} \<noteq> {}
      | _ \<Rightarrow> False)"

definition pairwise_free :: "(reservation \<Rightarrow> reservation \<Rightarrow> bool) \<Rightarrow> store \<Rightarrow> bool" where
  "pairwise_free R s =
     (\<forall>(i, r) \<in> set (RESERVATIONS s). \<forall>(j, r') \<in> set (RESERVATIONS s).
        i \<noteq> j \<and> classroom_id r = classroom_id r' \<and> date r = date r' \<longrightarrow> \<not> R r r')"

definition no_shared_minute :: "store \<Rightarrow> bool" where
  "no_shared_minute s = pairwise_free share_a_minute s"

text \<open>
  The overlap of two reservations as the data model of the specification has them
  (section 3: the end is one hour after the start, the hour taken modulo 24): an end
  that is not after the start lies on the next day, so the slot 23:00 to 00:00 is the
  hour from minute 1380 to minute 1440.
\<close>

definition slot_end :: "pytime \<Rightarrow> pytime \<Rightarrow> int" where
  "slot_end start finish =
     (if time_to_minutes finish \<le> time_to_minutes start then time_to_minutes finish + 1440
      else time_to_minutes finish)"

definition slots_overlap :: "reservation \<Rightarrow> reservation \<Rightarrow> bool" where
  "slots_overlap r r' =
     (case (parse_time (start_time r), parse_time (end_time r),
            parse_time (start_time r'), parse_time (end_time r')) of
        (Inr s1, Inr e1, Inr s2, Inr e2) \<Rightarrow>
          {time_to_minutes s1 ..< slot_end s1 e1} \<inter> {time_to_minutes s2 ..< slot_end s2 e2} \<noteq> {}
      | _ \<Rightarrow> False)"

text \<open>The ids in the store, and the counter above all of them.\<close>

definition ids :: "store \<Rightarrow> int set" where
  "ids s = fst ` set (RESERVATIONS s)"

definition counter_above_ids :: "store \<Rightarrow> bool" where
  "counter_above_ids s = (\<forall>i \<in> ids s. i < next_id s)"

text \<open>
  The state after a successful creation: the counter incremented, the record stored
  under the old counter value, the file written.
\<close>

definition new_state :: "write_outcome \<Rightarrow> store \<Rightarrow> reservation \<Rightarrow> store" where
  "new_state w s r =
     save_reservations w
       (s\<lparr>next_id := next_id s + 1,
          RESERVATIONS := AList.update (next_id s) r (RESERVATIONS s)\<rparr>)"

text \<open>
  What the scan of lines 112 to 120 finds at one stored reservation, for a candidate
  slot \<open>so\<close> to \<open>eo\<close> in classroom \<open>cid\<close> on date string \<open>d\<close>: the scan goes past it
  (\<open>passes\<close>: another classroom or date, or times that parse and do not overlap), or
  returns the conflict there (\<open>collides\<close>).
\<close>

definition passes :: "int \<Rightarrow> string \<Rightarrow> pytime \<Rightarrow> pytime \<Rightarrow> reservation \<Rightarrow> bool" where
  "passes cid d so eo r =
     (if classroom_id r = cid \<and> date r = d then
        (case (parse_time (start_time r), parse_time (end_time r)) of
           (Inr es, Inr ee) \<Rightarrow> \<not> is_time_overlap so eo es ee
         | _ \<Rightarrow> False)
      else True)"

definition collides :: "int \<Rightarrow> string \<Rightarrow> pytime \<Rightarrow> pytime \<Rightarrow> reservation \<Rightarrow> bool" where
  "collides cid d so eo r =
     (classroom_id r = cid \<and> date r = d \<and>
        (case (parse_time (start_time r), parse_time (end_time r)) of
           (Inr es, Inr ee) \<Rightarrow> is_time_overlap so eo es ee
         | _ \<Rightarrow> False))"


subsection \<open>Sample data\<close>

text \<open>
  The store of a fresh installation and a clock value; a store with two bookings of
  classroom 3 on one day; the booking of 14:00 to 15:00 on 2099-01-01; a file whose time
  strings were not written by this module; a request that books again; the bookings of
  9:00 and of 10:00 on one day, and two bookings of the slot 23:00 to 00:00, all made
  through \<^verbatim>\<open>create_reservation\<close>.
\<close>

definition empty_store :: store where
  "empty_store = \<lparr>RESERVATIONS = [], next_id = 1, reservations_file = Missing\<rparr>"

definition now0 :: pydatetime where
  "now0 = \<lparr>dt_year = 2024, dt_month = 5, dt_day = 17, dt_hour = 10, dt_minute = 30,
           dt_second = 15, dt_microsecond = 250\<rparr>"

definition booked :: store where
  "booked = \<lparr>RESERVATIONS =
      [(1, \<lparr>user_id = ''u1'', classroom_id = 3, date = ''2099-01-01'',
            start_time = ''14:00'', end_time = ''15:00''\<rparr>),
       (2, \<lparr>user_id = ''u2'', classroom_id = 3, date = ''2099-01-01'',
            start_time = ''15:00'', end_time = ''16:00''\<rparr>)],
     next_id = 3, reservations_file = Missing\<rparr>"

definition slot_14 :: "string \<Rightarrow> int \<Rightarrow> reservation" where
  "slot_14 uid cid = \<lparr>user_id = uid, classroom_id = cid, date = ''2099-01-01'',
      start_time = ''14:00'', end_time = ''15:00''\<rparr>"

definition legacy_file :: json_file where
  "legacy_file = Document
     [(1, \<lparr>user_id = ''u2'', classroom_id = 3, date = ''2099-01-01'',
           start_time = ''2pm'', end_time = ''3pm''\<rparr>)] 2"

definition rebook :: "request list" where
  "rebook = [Create Written now0 ''u3'' 3 ''2099-01-01'' ''14:00'' ''15:00'']"


definition late_night :: store where
  "late_night = run empty_store
     [Create Written now0 ''u1'' 3 ''2099-01-01'' ''23:00'' ''00:00'',
      Create Written now0 ''u2'' 3 ''2099-01-01'' ''23:00'' ''00:00'']"

section \<open>Theorems\<close>

subsection \<open>Helper facts\<close>

lemma half_open_meet:
  fixes a b c d :: int
  assumes "a < b" "c < d"
  shows "({a..<b} \<inter> {c..<d} \<noteq> {}) = (a < d \<and> c < b)"
proof
  assume "{a..<b} \<inter> {c..<d} \<noteq> {}"
  then obtain x where "x \<in> {a..<b}" "x \<in> {c..<d}" by blast
  then show "a < d \<and> c < b" by simp
next
  assume h: "a < d \<and> c < b"
  have "max a c \<in> {a..<b} \<inter> {c..<d}" using assms h by auto
  then show "{a..<b} \<inter> {c..<d} \<noteq> {}" by blast
qed

lemma passes_iff:
  "passes cid d so eo r \<longleftrightarrow>
     (classroom_id r = cid \<and> date r = d \<longrightarrow>
        (\<exists>es ee. parse_time (start_time r) = Inr es \<and> parse_time (end_time r) = Inr ee
           \<and> \<not> is_time_overlap so eo es ee))"
  by (auto simp: passes_def split: sum.splits)

lemma collides_iff:
  "collides cid d so eo r \<longleftrightarrow>
     (classroom_id r = cid \<and> date r = d \<and>
        (\<exists>es ee. parse_time (start_time r) = Inr es \<and> parse_time (end_time r) = Inr ee
           \<and> is_time_overlap so eo es ee))"
  by (auto simp: collides_def split: sum.splits)

lemma save_reservations_simps [simp]:
  "RESERVATIONS (save_reservations w s) = RESERVATIONS s"
  "next_id (save_reservations w s) = next_id s"
  "reservations_file (save_reservations Written s) = Document (RESERVATIONS s) (next_id s)"
  by (cases w; simp add: save_reservations_def)+

lemma map_of_delete_same: "map_of (AList.delete k xs) k = None"
  by (simp add: delete_conv')

lemma find_conflict_clear:
  "find_conflict cid d so eo rs = Inr False \<longleftrightarrow> (\<forall>r \<in> set rs. passes cid d so eo r)"
  by (induction rs) (auto simp: passes_iff split: sum.splits)

lemma find_conflict_first:
  assumes "\<forall>r' \<in> set pre. passes cid d so eo r'" and "collides cid d so eo r"
  shows "find_conflict cid d so eo (pre @ r # post) = Inr True"
  using assms
  by (induction pre) (auto simp: passes_iff collides_iff split: sum.splits)

lemma create_reservation_outcome:
  "(snd (create_reservation w now s uid cid d st en) = s
      \<and> (\<forall>m. fst (create_reservation w now s uid cid d st en) \<noteq> Inr (True, m)))
   \<or> (create_reservation w now s uid cid d st en =
        (Inr (True, Created),
         new_state w s \<lparr>user_id = uid, classroom_id = cid, date = d,
                        start_time = st, end_time = en\<rparr>)
      \<and> (\<exists>dobj so eo. parse_request d st en = Inr (dobj, so, eo)
            \<and> \<not> is_past_datetime now dobj so \<and> is_valid_time_slot so eo
            \<and> find_conflict cid d so eo (map snd (RESERVATIONS s)) = Inr False))"
  by (auto simp: create_reservation_def new_state_def Let_def
      split: sum.splits exn.splits bool.splits prod.splits)

lemma parse_request_Inr:
  "parse_request d st en = Inr (dobj, so, eo) \<longleftrightarrow>
     parse_date d = Inr dobj \<and> parse_time st = Inr so \<and> parse_time en = Inr eo"
  by (auto simp: parse_request_def split: sum.splits)

lemma parse_date_error: "parse_date d = Inl (ValueError m) \<Longrightarrow> m = DateFormat d"
  by (auto simp: parse_date_def split: sum.splits exn.splits)

lemma parse_time_error: "parse_time t = Inl (ValueError m) \<Longrightarrow> m = TimeFormat t"
  by (auto simp: parse_time_def split: sum.splits exn.splits list.splits option.splits)

lemma past_date_is_past:
  "(year dobj, month dobj, day dobj) < (dt_year now, dt_month now, dt_day now)
     \<Longrightarrow> is_past_datetime now dobj so"
  by (auto simp: is_past_datetime_def datetime_less_def datetime_key_def combine_def)

lemma parse_samples:
  "parse_date ''2099-01-01'' = Inr \<lparr>year = 2099, month = 1, day = 1\<rparr>"
  "parse_date ''2020-01-01'' = Inr \<lparr>year = 2020, month = 1, day = 1\<rparr>"
  "parse_date ''2099-13-01'' = Inl (ValueError (DateFormat ''2099-13-01''))"
  "parse_time ''14:00'' = Inr (at 14 0)"
  "parse_time ''15:00'' = Inr (at 15 0)"
  "parse_time ''16:00'' = Inr (at 16 0)"
  "parse_time ''14:30'' = Inr (at 14 30)"
  "parse_time ''15:30'' = Inr (at 15 30)"
  "parse_time ''23:00'' = Inr (at 23 0)"
  "parse_time ''00:00'' = Inr (at 0 0)"
  "parse_time ''25:00'' = Inl (ValueError (TimeFormat ''25:00''))"
  "parse_time ''2pm'' = Inl (ValueError (TimeFormat ''2pm''))"
  "parse_time ''2147483648:00'' = Inl OverflowError"
  by code_simp+

lemma find_conflict_raises:
  "find_conflict cid d so eo rs = Inl e \<Longrightarrow>
     \<exists>r \<in> set rs. parse_time (start_time r) = Inl e \<or> parse_time (end_time r) = Inl e"
  by (induction rs) (auto split: sum.splits if_splits)

lemma create_reservation_returns:
  assumes "\<forall>(i, r) \<in> set (RESERVATIONS s).
             (\<exists>es. parse_time (start_time r) = Inr es) \<and> (\<exists>ee. parse_time (end_time r) = Inr ee)"
    and "parse_request d st en \<noteq> Inl OverflowError"
  shows "\<exists>b m. fst (create_reservation w now s uid cid d st en) = Inr (b, m)"
proof -
  have "find_conflict cid d so eo (map snd (RESERVATIONS s)) \<noteq> Inl e" for so eo e
  proof
    assume "find_conflict cid d so eo (map snd (RESERVATIONS s)) = Inl e"
    from find_conflict_raises [OF this] assms(1) show False by fastforce
  qed
  with assms(2) show ?thesis
    by (auto simp: create_reservation_def Let_def
        split: sum.splits exn.splits bool.splits prod.splits)
qed

lemma new_state_simps [simp]:
  "RESERVATIONS (new_state w s r) = AList.update (next_id s) r (RESERVATIONS s)"
  "next_id (new_state w s r) = next_id s + 1"
  "reservations_file (new_state Written s r)
     = Document (AList.update (next_id s) r (RESERVATIONS s)) (next_id s + 1)"
  by (simp_all add: new_state_def)

lemma first_booking:
  assumes "\<not> is_past_datetime now \<lparr>year = 2099, month = 1, day = 1\<rparr> (at 14 0)"
  shows "create_reservation w now (s\<lparr>RESERVATIONS := []\<rparr>) u c ''2099-01-01'' ''14:00'' ''15:00''
     = (Inr (True, Created), new_state w (s\<lparr>RESERVATIONS := []\<rparr>) (slot_14 u c))"
  using assms
  by (simp add: create_reservation_def parse_request_def parse_samples is_valid_time_slot_def
      at_def new_state_def slot_14_def)

lemma second_booking:
  assumes "\<not> is_past_datetime now \<lparr>year = 2099, month = 1, day = 1\<rparr> (at 14 0)"
    and "RESERVATIONS s = [(i, slot_14 u' c)]"
  shows "create_reservation w now s u c ''2099-01-01'' ''14:00'' ''15:00''
     = (Inr (False, SlotConflict), s)"
  using assms
  by (simp add: create_reservation_def parse_request_def parse_samples is_valid_time_slot_def
      at_def slot_14_def is_time_overlap_def time_to_minutes_def)

lemma not_past_2099:
  "\<not> is_past_datetime now0 \<lparr>year = 2099, month = 1, day = 1\<rparr> t"
  by (simp add: is_past_datetime_def datetime_less_def datetime_key_def combine_def now0_def)

lemma past_2020:
  "is_past_datetime now0 \<lparr>year = 2020, month = 1, day = 1\<rparr> t"
  by (simp add: is_past_datetime_def datetime_less_def datetime_key_def combine_def now0_def)

lemma create_reservation_raises_on_huge_hour:
  "fst (create_reservation w now s uid cid ''2099-01-01'' ''2147483648:00'' ''15:00'')
     = Inl OverflowError"
  by (simp add: create_reservation_def parse_request_def parse_samples)

lemma set_update_subset: "set (AList.update k v xs) \<subseteq> insert (k, v) (set xs)"
  by (induction xs) auto

lemma set_delete_subset: "set (AList.delete k xs) \<subseteq> set xs"
  by (induction xs) auto

lemma is_time_overlap_sym: "is_time_overlap s1 e1 s2 e2 = is_time_overlap s2 e2 s1 e1"
  by (auto simp: is_time_overlap_def)

text \<open>What one request does to the mapping and the counter.\<close>

lemma perform_effect:
  "(set (RESERVATIONS (perform s q)) \<subseteq> set (RESERVATIONS s)
      \<and> next_id (perform s q) = next_id s)
   \<or> (\<exists>r so eo. set (RESERVATIONS (perform s q)) \<subseteq> insert (next_id s, r) (set (RESERVATIONS s))
        \<and> next_id (perform s q) = next_id s + 1
        \<and> parse_time (start_time r) = Inr so \<and> parse_time (end_time r) = Inr eo
        \<and> (\<forall>x \<in> set (map snd (RESERVATIONS s)). passes (classroom_id r) (date r) so eo x))"
proof (cases q)
  case (Create w now uid cid d st en)
  from create_reservation_outcome [of w now s uid cid d st en]
  show ?thesis
  proof
    assume "snd (create_reservation w now s uid cid d st en) = s
      \<and> (\<forall>m. fst (create_reservation w now s uid cid d st en) \<noteq> Inr (True, m))"
    with Create show ?thesis by simp
  next
    let ?r = "\<lparr>user_id = uid, classroom_id = cid, date = d, start_time = st, end_time = en\<rparr>"
    assume a: "create_reservation w now s uid cid d st en = (Inr (True, Created), new_state w s ?r)
      \<and> (\<exists>dobj so eo. parse_request d st en = Inr (dobj, so, eo)
            \<and> \<not> is_past_datetime now dobj so \<and> is_valid_time_slot so eo
            \<and> find_conflict cid d so eo (map snd (RESERVATIONS s)) = Inr False)"
    then obtain dobj so eo where p: "parse_request d st en = Inr (dobj, so, eo)"
      and f: "find_conflict cid d so eo (map snd (RESERVATIONS s)) = Inr False" by blast
    from p have pt: "parse_time st = Inr so" "parse_time en = Inr eo"
      by (simp_all add: parse_request_Inr)
    from f have cl: "\<forall>x \<in> set (map snd (RESERVATIONS s)). passes cid d so eo x"
      by (simp only: find_conflict_clear)
    from a Create have st': "perform s q = new_state w s ?r" by simp
    have "set (RESERVATIONS (perform s q)) \<subseteq> insert (next_id s, ?r) (set (RESERVATIONS s))
        \<and> next_id (perform s q) = next_id s + 1
        \<and> parse_time (start_time ?r) = Inr so \<and> parse_time (end_time ?r) = Inr eo
        \<and> (\<forall>x \<in> set (map snd (RESERVATIONS s)). passes (classroom_id ?r) (date ?r) so eo x)"
      using pt cl by (simp add: st' set_update_subset)
    then show ?thesis by blast
  qed
next
  case (Cancel w rid uid)
  then show ?thesis
    using set_delete_subset [of rid "RESERVATIONS s"]
    by (auto simp: cancel_reservation_def split: option.splits)
next
  case (Delete w rid)
  then show ?thesis
    using set_delete_subset [of rid "RESERVATIONS s"]
    by (auto simp: delete_reservation_def)
qed

lemma perform_counter_above_ids:
  assumes "counter_above_ids s"
  shows "counter_above_ids (perform s q)"
  using assms perform_effect [of s q]
  by (fastforce simp: counter_above_ids_def ids_def)

lemma perform_next_id_mono: "next_id s \<le> next_id (perform s q)"
  using perform_effect [of s q] by auto

lemma perform_new_ids:
  assumes "i \<in> ids (perform s q)"
  shows "i \<in> ids s \<or> (i = next_id s \<and> next_id (perform s q) = next_id s + 1)"
  using assms perform_effect [of s q]
  by (fastforce simp: ids_def)

lemma run_snoc: "run s (qs @ [q]) = perform (run s qs) q"
  by (simp add: run_def)

lemma run_counter_above_ids:
  "counter_above_ids s \<Longrightarrow> counter_above_ids (run s qs)"
  by (induction qs rule: rev_induct)
     (simp_all add: run_snoc perform_counter_above_ids, simp add: run_def)

lemma run_next_id_mono: "next_id s \<le> next_id (run s qs)"
proof (induction qs rule: rev_induct)
  case Nil
  show ?case by (simp add: run_def)
next
  case (snoc q qs)
  from snoc perform_next_id_mono [of "run s qs" q] show ?case
    by (simp add: run_snoc)
qed

lemma run_new_ids:
  assumes "i \<in> ids (run s qs)"
  shows "i \<in> ids s \<or> (next_id s \<le> i \<and> i < next_id (run s qs))"
  using assms
proof (induction qs arbitrary: i rule: rev_induct)
  case Nil
  then show ?case by (simp add: run_def)
next
  case (snoc q qs)
  from snoc.prems have "i \<in> ids (perform (run s qs) q)" by (simp add: run_snoc)
  from perform_new_ids [OF this]
  show ?case
  proof
    assume "i \<in> ids (run s qs)"
    from snoc.IH [OF this] perform_next_id_mono [of "run s qs" q]
    show ?thesis by (auto simp: run_snoc)
  next
    assume "i = next_id (run s qs) \<and> next_id (perform (run s qs) q) = next_id (run s qs) + 1"
    with run_next_id_mono [of s qs] show ?thesis by (simp add: run_snoc)
  qed
qed






lemma late_night_store:
  "RESERVATIONS late_night =
     [(1, \<lparr>user_id = ''u1'', classroom_id = 3, date = ''2099-01-01'',
           start_time = ''23:00'', end_time = ''00:00''\<rparr>),
      (2, \<lparr>user_id = ''u2'', classroom_id = 3, date = ''2099-01-01'',
           start_time = ''23:00'', end_time = ''00:00''\<rparr>)]"
  by (simp add: late_night_def run_def empty_store_def create_reservation_def parse_request_def
      parse_samples not_past_2099 is_valid_time_slot_def at_def is_time_overlap_def
      time_to_minutes_def Let_def)

lemma empty_date_means_all_dates:
  "get_classroom_reservations s cid (Some []) = get_classroom_reservations s cid None"
  by (simp add: get_classroom_reservations_def)

lemma parse_time_time_of_day: "parse_time t = Inr x \<Longrightarrow> time_of_day x"
  by (auto simp: parse_time_def time_new_def time_of_day_def
      split: list.splits option.splits sum.splits exn.splits if_splits)

lemma no_double_booking_pairwise: "no_double_booking s = pairwise_free reservations_overlap s"
  by (simp add: no_double_booking_def pairwise_free_def)

lemma share_a_minute_overlap: "share_a_minute r r' \<Longrightarrow> reservations_overlap r r'"
  by (auto simp: share_a_minute_def reservations_overlap_def is_time_overlap_def
      split: sum.splits)

lemma perform_pairwise_free:
  assumes imp: "\<And>a b. R a b \<Longrightarrow> reservations_overlap a b"
    and inv: "pairwise_free R s"
  shows "pairwise_free R (perform s q)"
proof -
  from perform_effect [of s q] show ?thesis
  proof
    assume "set (RESERVATIONS (perform s q)) \<subseteq> set (RESERVATIONS s)
      \<and> next_id (perform s q) = next_id s"
    with inv show ?thesis
      unfolding pairwise_free_def by blast
  next
    assume "\<exists>r so eo. set (RESERVATIONS (perform s q)) \<subseteq> insert (next_id s, r) (set (RESERVATIONS s))
        \<and> next_id (perform s q) = next_id s + 1
        \<and> parse_time (start_time r) = Inr so \<and> parse_time (end_time r) = Inr eo
        \<and> (\<forall>x \<in> set (map snd (RESERVATIONS s)). passes (classroom_id r) (date r) so eo x)"
    then obtain r so eo where
      sub: "set (RESERVATIONS (perform s q)) \<subseteq> insert (next_id s, r) (set (RESERVATIONS s))"
      and ps: "parse_time (start_time r) = Inr so" and pe: "parse_time (end_time r) = Inr eo"
      and cl: "\<forall>x \<in> set (map snd (RESERVATIONS s)). passes (classroom_id r) (date r) so eo x"
      by blast
    have new_old: "\<not> R r x \<and> \<not> R x r"
      if "(j, x) \<in> set (RESERVATIONS s)" "classroom_id x = classroom_id r" "date x = date r"
      for j x
    proof -
      from that(1) have "x \<in> set (map snd (RESERVATIONS s))" by force
      with cl have "passes (classroom_id r) (date r) so eo x" by blast
      with that(2,3) obtain es ee where "parse_time (start_time x) = Inr es"
        "parse_time (end_time x) = Inr ee" "\<not> is_time_overlap so eo es ee"
        unfolding passes_iff by blast
      with ps pe have "\<not> reservations_overlap r x \<and> \<not> reservations_overlap x r"
        by (simp add: reservations_overlap_def is_time_overlap_sym [of es ee so eo])
      with imp show ?thesis by blast
    qed
    show ?thesis
      unfolding pairwise_free_def
    proof (intro ballI, clarify)
      fix i a j b
      assume ia: "(i, a) \<in> set (RESERVATIONS (perform s q))"
        and jb: "(j, b) \<in> set (RESERVATIONS (perform s q))"
        and ne: "i \<noteq> j" and c: "classroom_id a = classroom_id b" and d: "date a = date b"
        and ov: "R a b"
      from ia sub have ia': "(i, a) = (next_id s, r) \<or> (i, a) \<in> set (RESERVATIONS s)" by blast
      from jb sub have jb': "(j, b) = (next_id s, r) \<or> (j, b) \<in> set (RESERVATIONS s)" by blast
      from ia' jb' show False
      proof (elim disjE)
        assume "(i, a) = (next_id s, r)" "(j, b) = (next_id s, r)"
        with ne show False by simp
      next
        assume "(i, a) = (next_id s, r)" "(j, b) \<in> set (RESERVATIONS s)"
        with new_old [of j b] c d ov show False by simp
      next
        assume "(i, a) \<in> set (RESERVATIONS s)" "(j, b) = (next_id s, r)"
        with new_old [of i a] c d ov show False by simp
      next
        assume "(i, a) \<in> set (RESERVATIONS s)" "(j, b) \<in> set (RESERVATIONS s)"
        with inv ne c d ov show False
          unfolding pairwise_free_def by blast
      qed
    qed
  qed
qed

lemma run_pairwise_free:
  assumes "\<And>a b. R a b \<Longrightarrow> reservations_overlap a b" "pairwise_free R s"
  shows "pairwise_free R (run s qs)"
proof (induction qs rule: rev_induct)
  case Nil
  from assms(2) show ?case by (simp add: run_def)
next
  case (snoc q qs)
  from perform_pairwise_free [OF assms(1) snoc, of q] show ?case
    by (simp add: run_snoc)
qed

lemma perform_no_double_booking:
  "no_double_booking s \<Longrightarrow> no_double_booking (perform s q)"
  unfolding no_double_booking_pairwise
  by (rule perform_pairwise_free)

lemma run_no_double_booking: "no_double_booking s \<Longrightarrow> no_double_booking (run s qs)"
  unfolding no_double_booking_pairwise
  by (rule run_pairwise_free)

lemma perform_no_shared_minute: "no_shared_minute s \<Longrightarrow> no_shared_minute (perform s q)"
  unfolding no_shared_minute_def
  by (rule perform_pairwise_free [OF share_a_minute_overlap])

lemma run_no_shared_minute: "no_shared_minute s \<Longrightarrow> no_shared_minute (run s qs)"
  unfolding no_shared_minute_def
  by (rule run_pairwise_free [OF share_a_minute_overlap])

subsection \<open>The shape of a slot\<close>

text \<open>
  Claim C5. \<^verbatim>\<open>_is_valid_time_slot(start, end)\<close> is true exactly when both minutes are 0
  and the end hour is the start hour plus one, modulo 24. Hence every slot \<open>H:00\<close> to
  \<open>(H+1):00\<close> with \<open>H\<close> from 0 to 22 is valid, a time with a non-zero minute makes the
  slot invalid, and the slot 23:00 to 00:00, which wraps over midnight, is accepted.
\<close>

theorem valid_slot_characterisation:
  "(is_valid_time_slot st en \<longleftrightarrow>
      minute st = 0 \<and> minute en = 0 \<and> hour en = (hour st + 1) mod 24)
   \<and> (\<forall>H. 0 \<le> H \<and> H \<le> 22 \<longrightarrow> is_valid_time_slot (at H 0) (at (H + 1) 0))
   \<and> (\<forall>a b. minute a \<noteq> 0 \<or> minute b \<noteq> 0 \<longrightarrow> \<not> is_valid_time_slot a b)
   \<and> is_valid_time_slot (at 23 0) (at 0 0)"
  by (auto simp: is_valid_time_slot_def at_def)

theorem valid_slot_characterisation_witness:
  "(0::int) \<le> 7 \<and> (7::int) \<le> 22 \<and> is_valid_time_slot (at 7 0) (at (7 + 1) 0)
   \<and> minute (at 7 30) \<noteq> 0 \<and> \<not> is_valid_time_slot (at 7 30) (at 8 30)"
proof -
  note t = valid_slot_characterisation [of "at 7 30" "at 8 30"]
  from t have a: "\<forall>H. 0 \<le> H \<and> H \<le> 22 \<longrightarrow> is_valid_time_slot (at H 0) (at (H + 1) 0)"
    by blast
  from t have b: "\<forall>a b. minute a \<noteq> 0 \<or> minute b \<noteq> 0 \<longrightarrow> \<not> is_valid_time_slot a b"
    by blast
  have m: "minute (at 7 30) \<noteq> 0" by (simp add: at_def)
  from a [rule_format, of 7] have "is_valid_time_slot (at 7 0) (at (7 + 1) 0)" by simp
  moreover from b m have "\<not> is_valid_time_slot (at 7 30) (at 8 30)" by blast
  ultimately show ?thesis using m by simp
qed

subsection \<open>Overlap of two intervals\<close>

text \<open>
  Claim C6. For any four times, \<^verbatim>\<open>_is_time_overlap(start1, end1, start2, end2)\<close> is true
  exactly when, in minutes since midnight, \<open>start1 < end2\<close> and \<open>start2 < end1\<close>. For
  two intervals that are not empty this is the overlap of the half-open intervals
  \<open>[start, end)\<close>: they share a minute. 09:00 to 10:00 and 10:00 to 11:00 touch and do
  not overlap; 09:00 to 10:00 and 09:30 to 10:30 overlap.
\<close>

theorem overlap_characterisation:
  "(is_time_overlap s1 e1 s2 e2 \<longleftrightarrow>
      hour s1 * 60 + minute s1 < hour e2 * 60 + minute e2
      \<and> hour s2 * 60 + minute s2 < hour e1 * 60 + minute e1)
   \<and> (time_to_minutes s1 < time_to_minutes e1 \<and> time_to_minutes s2 < time_to_minutes e2 \<longrightarrow>
        (is_time_overlap s1 e1 s2 e2 \<longleftrightarrow>
           {time_to_minutes s1 ..< time_to_minutes e1}
             \<inter> {time_to_minutes s2 ..< time_to_minutes e2} \<noteq> {}))
   \<and> \<not> is_time_overlap (at 9 0) (at 10 0) (at 10 0) (at 11 0)
   \<and> is_time_overlap (at 9 0) (at 10 0) (at 9 30) (at 10 30)"
proof -
  have iff: "is_time_overlap s1 e1 s2 e2 \<longleftrightarrow>
      hour s1 * 60 + minute s1 < hour e2 * 60 + minute e2
      \<and> hour s2 * 60 + minute s2 < hour e1 * 60 + minute e1"
    by (simp add: is_time_overlap_def time_to_minutes_def)
  have sets: "time_to_minutes s1 < time_to_minutes e1 \<and> time_to_minutes s2 < time_to_minutes e2 \<longrightarrow>
        (is_time_overlap s1 e1 s2 e2 \<longleftrightarrow>
           {time_to_minutes s1 ..< time_to_minutes e1}
             \<inter> {time_to_minutes s2 ..< time_to_minutes e2} \<noteq> {})"
    using half_open_meet [of "time_to_minutes s1" "time_to_minutes e1"
        "time_to_minutes s2" "time_to_minutes e2"]
    by (auto simp: is_time_overlap_def)
  have touch: "\<not> is_time_overlap (at 9 0) (at 10 0) (at 10 0) (at 11 0)"
    by (simp add: is_time_overlap_def time_to_minutes_def at_def)
  have cross: "is_time_overlap (at 9 0) (at 10 0) (at 9 30) (at 10 30)"
    by (simp add: is_time_overlap_def time_to_minutes_def at_def)
  from iff sets touch cross show ?thesis by blast
qed

theorem overlap_characterisation_witness:
  "time_to_minutes (at 9 0) < time_to_minutes (at 11 0)
   \<and> time_to_minutes (at 10 15) < time_to_minutes (at 12 0)
   \<and> {time_to_minutes (at 9 0) ..< time_to_minutes (at 11 0)}
        \<inter> {time_to_minutes (at 10 15) ..< time_to_minutes (at 12 0)} \<noteq> {}"
proof -
  have a: "time_to_minutes (at 9 0) < time_to_minutes (at 11 0)"
    by (simp add: at_def time_to_minutes_def)
  have b: "time_to_minutes (at 10 15) < time_to_minutes (at 12 0)"
    by (simp add: at_def time_to_minutes_def)
  have c: "hour (at 9 0) * 60 + minute (at 9 0) < hour (at 12 0) * 60 + minute (at 12 0)
      \<and> hour (at 10 15) * 60 + minute (at 10 15) < hour (at 11 0) * 60 + minute (at 11 0)"
    by (simp add: at_def)
  from a b c overlap_characterisation [of "at 9 0" "at 11 0" "at 10 15" "at 12 0"]
  show ?thesis by blast
qed

subsection \<open>Cancellation\<close>

text \<open>
  Claim C7. \<^verbatim>\<open>cancel_reservation(id, user)\<close> fails with the not-found message when the
  id is absent, fails with the not-owner message when the stored record belongs to
  another user, and otherwise removes the record (and that record only), writes the
  file, and succeeds; afterwards \<^verbatim>\<open>get_reservation(id)\<close> is absent.
\<close>

theorem cancel_reservation_cases:
  "(get_reservation s rid = None \<longrightarrow>
      cancel_reservation w s rid uid = ((False, NotFound), s))
   \<and> (\<forall>r. get_reservation s rid = Some r \<and> user_id r \<noteq> uid \<longrightarrow>
      cancel_reservation w s rid uid = ((False, NotOwner), s))
   \<and> (\<forall>r. get_reservation s rid = Some r \<and> user_id r = uid \<longrightarrow>
      fst (cancel_reservation w s rid uid) = (True, Cancelled)
      \<and> RESERVATIONS (snd (cancel_reservation w s rid uid)) = AList.delete rid (RESERVATIONS s)
      \<and> next_id (snd (cancel_reservation w s rid uid)) = next_id s
      \<and> (w = Written \<longrightarrow> reservations_file (snd (cancel_reservation w s rid uid))
            = Document (AList.delete rid (RESERVATIONS s)) (next_id s))
      \<and> get_reservation (snd (cancel_reservation w s rid uid)) rid = None
      \<and> (\<forall>j. j \<noteq> rid \<longrightarrow>
            get_reservation (snd (cancel_reservation w s rid uid)) j = get_reservation s j))"
  by (auto simp: cancel_reservation_def get_reservation_def map_of_delete_same delete_conv')

theorem cancel_reservation_cases_witness:
  "get_reservation booked 7 = None
   \<and> cancel_reservation Written booked 7 ''u1'' = ((False, NotFound), booked)
   \<and> get_reservation booked 1 \<noteq> None
   \<and> cancel_reservation Written booked 1 ''u2'' = ((False, NotOwner), booked)
   \<and> fst (cancel_reservation Written booked 1 ''u1'') = (True, Cancelled)
   \<and> get_reservation (snd (cancel_reservation Written booked 1 ''u1'')) 1 = None"
proof -
  have a: "get_reservation booked 7 = None"
    by (simp add: get_reservation_def booked_def)
  have b: "get_reservation booked 1 = Some \<lparr>user_id = ''u1'', classroom_id = 3,
      date = ''2099-01-01'', start_time = ''14:00'', end_time = ''15:00''\<rparr>"
    by (simp add: get_reservation_def booked_def)
  from a cancel_reservation_cases [of booked 7 Written "''u1''"]
  have c: "cancel_reservation Written booked 7 ''u1'' = ((False, NotFound), booked)" by blast
  from b cancel_reservation_cases [of booked 1 Written "''u2''"]
  have d: "cancel_reservation Written booked 1 ''u2'' = ((False, NotOwner), booked)" by simp
  from b cancel_reservation_cases [of booked 1 Written "''u1''"]
  have e: "fst (cancel_reservation Written booked 1 ''u1'') = (True, Cancelled)
     \<and> get_reservation (snd (cancel_reservation Written booked 1 ''u1'')) 1 = None" by simp
  from a b c d e show ?thesis by simp
qed

subsection \<open>Rejections change nothing\<close>

text \<open>
  Claim C10. When \<^verbatim>\<open>create_reservation\<close> or \<^verbatim>\<open>cancel_reservation\<close> returns a failure
  (\<open>False\<close> with any message), the module's state is what it was before the call:
  the mapping, the counter, and the file as well.
\<close>

theorem rejection_is_atomic:
  "(\<forall>m. fst (create_reservation w now s uid cid d st en) = Inr (False, m)
        \<longrightarrow> snd (create_reservation w now s uid cid d st en) = s)
   \<and> (\<forall>m. fst (cancel_reservation w' s rid uid') = (False, m)
        \<longrightarrow> snd (cancel_reservation w' s rid uid') = s)"
proof -
  have "snd (create_reservation w now s uid cid d st en) = s"
    if "fst (create_reservation w now s uid cid d st en) = Inr (False, m)" for m
    using create_reservation_outcome [of w now s uid cid d st en] that by auto
  moreover have "snd (cancel_reservation w' s rid uid') = s"
    if "fst (cancel_reservation w' s rid uid') = (False, m)" for m
    using that by (auto simp: cancel_reservation_def split: option.splits if_splits)
  ultimately show ?thesis by blast
qed

theorem rejection_is_atomic_witness:
  "fst (create_reservation Written now0 booked ''u3'' 3 ''2099-01-01'' ''14:30'' ''15:30'')
     = Inr (False, SlotShape)
   \<and> snd (create_reservation Written now0 booked ''u3'' 3 ''2099-01-01'' ''14:30'' ''15:30'')
     = booked
   \<and> fst (cancel_reservation Written booked 1 ''u2'') = (False, NotOwner)
   \<and> snd (cancel_reservation Written booked 1 ''u2'') = booked"
proof -
  have a: "fst (create_reservation Written now0 booked ''u3'' 3 ''2099-01-01'' ''14:30'' ''15:30'')
     = Inr (False, SlotShape)"
    by (simp add: create_reservation_def parse_request_def parse_samples is_past_datetime_def
        datetime_less_def datetime_key_def combine_def now0_def at_def is_valid_time_slot_def)
  have b: "fst (cancel_reservation Written booked 1 ''u2'') = (False, NotOwner)"
    by (simp add: cancel_reservation_def booked_def)
  from a b
    rejection_is_atomic [of Written now0 booked "''u3''" 3 "''2099-01-01''" "''14:30''" "''15:30''"
      Written 1 "''u2''"]
  show ?thesis by blast
qed

subsection \<open>A successful creation\<close>

text \<open>
  Claim C2, as amended. When \<^verbatim>\<open>create_reservation\<close> succeeds it returns \<open>True\<close> with the
  success message, and no id: the id is the old value of the counter, under which the
  record is stored; the counter is incremented and, when the write goes through, the
  file holds the new mapping and counter. In particular, from the empty store with
  counter 1 and a clock that has not passed 2099-01-01 14:00,
  \<^verbatim>\<open>create(u1, c1, "2099-01-01", "14:00", "15:00")\<close> succeeds and stores the record under
  id 1, and a second call with the same arguments fails with the slot-conflict message.
\<close>

theorem create_reservation_success:
  "(\<forall>m. fst (create_reservation w now s uid cid d st en) = Inr (True, m) \<longrightarrow>
      m = Created
      \<and> next_id (snd (create_reservation w now s uid cid d st en)) = next_id s + 1
      \<and> RESERVATIONS (snd (create_reservation w now s uid cid d st en))
          = AList.update (next_id s)
              \<lparr>user_id = uid, classroom_id = cid, date = d, start_time = st, end_time = en\<rparr>
              (RESERVATIONS s)
      \<and> get_reservation (snd (create_reservation w now s uid cid d st en)) (next_id s)
          = Some \<lparr>user_id = uid, classroom_id = cid, date = d, start_time = st, end_time = en\<rparr>
      \<and> (w = Written \<longrightarrow>
           reservations_file (snd (create_reservation w now s uid cid d st en))
             = Document (RESERVATIONS (snd (create_reservation w now s uid cid d st en)))
                 (next_id s + 1)))
   \<and> (\<not> is_past_datetime now \<lparr>year = 2099, month = 1, day = 1\<rparr> (at 14 0)
      \<and> \<not> is_past_datetime now' \<lparr>year = 2099, month = 1, day = 1\<rparr> (at 14 0) \<longrightarrow>
        fst (create_reservation w now empty_store u1 c1 ''2099-01-01'' ''14:00'' ''15:00'')
          = Inr (True, Created)
        \<and> RESERVATIONS
             (snd (create_reservation w now empty_store u1 c1 ''2099-01-01'' ''14:00'' ''15:00''))
          = [(1, slot_14 u1 c1)]
        \<and> fst (create_reservation w' now'
                 (snd (create_reservation w now empty_store u1 c1
                         ''2099-01-01'' ''14:00'' ''15:00''))
                 u1 c1 ''2099-01-01'' ''14:00'' ''15:00'')
          = Inr (False, SlotConflict))"
proof -
  let ?r = "\<lparr>user_id = uid, classroom_id = cid, date = d, start_time = st, end_time = en\<rparr>"
  have general: "m = Created
      \<and> next_id (snd (create_reservation w now s uid cid d st en)) = next_id s + 1
      \<and> RESERVATIONS (snd (create_reservation w now s uid cid d st en))
          = AList.update (next_id s) ?r (RESERVATIONS s)
      \<and> get_reservation (snd (create_reservation w now s uid cid d st en)) (next_id s) = Some ?r
      \<and> (w = Written \<longrightarrow>
           reservations_file (snd (create_reservation w now s uid cid d st en))
             = Document (RESERVATIONS (snd (create_reservation w now s uid cid d st en)))
                 (next_id s + 1))"
    if ok: "fst (create_reservation w now s uid cid d st en) = Inr (True, m)" for m
  proof -
    from create_reservation_outcome [of w now s uid cid d st en] ok
    have eq: "create_reservation w now s uid cid d st en = (Inr (True, Created), new_state w s ?r)"
      by auto
    with ok have "m = Created" by simp
    with eq show ?thesis
      by (auto simp: get_reservation_def update_conv')
  qed
  have particular:
    "fst (create_reservation w now empty_store u1 c1 ''2099-01-01'' ''14:00'' ''15:00'')
          = Inr (True, Created)
        \<and> RESERVATIONS
             (snd (create_reservation w now empty_store u1 c1 ''2099-01-01'' ''14:00'' ''15:00''))
          = [(1, slot_14 u1 c1)]
        \<and> fst (create_reservation w' now'
                 (snd (create_reservation w now empty_store u1 c1
                         ''2099-01-01'' ''14:00'' ''15:00''))
                 u1 c1 ''2099-01-01'' ''14:00'' ''15:00'')
          = Inr (False, SlotConflict)"
    if a: "\<not> is_past_datetime now \<lparr>year = 2099, month = 1, day = 1\<rparr> (at 14 0)"
      and b: "\<not> is_past_datetime now' \<lparr>year = 2099, month = 1, day = 1\<rparr> (at 14 0)"
  proof -
    have e: "empty_store\<lparr>RESERVATIONS := []\<rparr> = empty_store" by (simp add: empty_store_def)
    from first_booking [OF a, of w empty_store u1 c1]
    have f: "create_reservation w now empty_store u1 c1 ''2099-01-01'' ''14:00'' ''15:00''
       = (Inr (True, Created), new_state w empty_store (slot_14 u1 c1))"
      by (simp only: e)
    have g: "RESERVATIONS (new_state w empty_store (slot_14 u1 c1)) = [(1, slot_14 u1 c1)]"
      by (simp add: empty_store_def)
    from second_booking [OF b g, of w' u1] f g show ?thesis by simp
  qed
  from general particular show ?thesis by blast
qed

theorem create_reservation_success_witness:
  "fst (create_reservation Written now0 empty_store ''u1'' 3 ''2099-01-01'' ''14:00'' ''15:00'')
     = Inr (True, Created)
   \<and> next_id (snd (create_reservation Written now0 empty_store ''u1'' 3
                      ''2099-01-01'' ''14:00'' ''15:00'')) = 2
   \<and> get_reservation (snd (create_reservation Written now0 empty_store ''u1'' 3
                      ''2099-01-01'' ''14:00'' ''15:00'')) 1 = Some (slot_14 ''u1'' 3)
   \<and> fst (create_reservation Written now0
            (snd (create_reservation Written now0 empty_store ''u1'' 3
                    ''2099-01-01'' ''14:00'' ''15:00''))
            ''u1'' 3 ''2099-01-01'' ''14:00'' ''15:00'') = Inr (False, SlotConflict)"
proof -
  have np: "\<not> is_past_datetime now0 \<lparr>year = 2099, month = 1, day = 1\<rparr> (at 14 0)"
    by (simp add: is_past_datetime_def datetime_less_def datetime_key_def combine_def
        now0_def at_def)
  note t = create_reservation_success [of Written now0 empty_store "''u1''" 3 "''2099-01-01''"
      "''14:00''" "''15:00''" now0 "''u1''" 3 Written]
  from t np
  have a: "fst (create_reservation Written now0 empty_store ''u1'' 3
                  ''2099-01-01'' ''14:00'' ''15:00'') = Inr (True, Created)"
    and c: "fst (create_reservation Written now0
            (snd (create_reservation Written now0 empty_store ''u1'' 3
                    ''2099-01-01'' ''14:00'' ''15:00''))
            ''u1'' 3 ''2099-01-01'' ''14:00'' ''15:00'') = Inr (False, SlotConflict)"
    by blast+
  from t a
  have b: "next_id (snd (create_reservation Written now0 empty_store ''u1'' 3
                      ''2099-01-01'' ''14:00'' ''15:00'')) = next_id empty_store + 1
     \<and> get_reservation (snd (create_reservation Written now0 empty_store ''u1'' 3
                      ''2099-01-01'' ''14:00'' ''15:00'')) (next_id empty_store)
        = Some \<lparr>user_id = ''u1'', classroom_id = 3, date = ''2099-01-01'',
                start_time = ''14:00'', end_time = ''15:00''\<rparr>"
    by blast
  from a b c show ?thesis by (simp add: empty_store_def slot_14_def)
qed

text \<open>
  The claim as written has the call return the new id. The returned value is the same
  pair whether the id assigned is 1 or 5.
\<close>

theorem create_reservation_returns_no_id_counterexample:
  "fst (create_reservation Written now0 empty_store ''u1'' 3 ''2099-01-01'' ''14:00'' ''15:00'')
     = Inr (True, Created)
   \<and> fst (create_reservation Written now0 (empty_store\<lparr>next_id := 5\<rparr>) ''u1'' 3
            ''2099-01-01'' ''14:00'' ''15:00'')
     = Inr (True, Created)
   \<and> ids (snd (create_reservation Written now0 empty_store ''u1'' 3
                  ''2099-01-01'' ''14:00'' ''15:00'')) = {1}
   \<and> ids (snd (create_reservation Written now0 (empty_store\<lparr>next_id := 5\<rparr>) ''u1'' 3
                  ''2099-01-01'' ''14:00'' ''15:00'')) = {5}"
proof -
  have np: "\<not> is_past_datetime now0 \<lparr>year = 2099, month = 1, day = 1\<rparr> (at 14 0)"
    by (simp add: is_past_datetime_def datetime_less_def datetime_key_def combine_def
        now0_def at_def)
  have e: "empty_store\<lparr>RESERVATIONS := []\<rparr> = empty_store"
    "empty_store\<lparr>next_id := 5, RESERVATIONS := []\<rparr> = empty_store\<lparr>next_id := 5\<rparr>"
    by (simp_all add: empty_store_def)
  from first_booking [OF np, of Written empty_store "''u1''" 3]
    first_booking [OF np, of Written "empty_store\<lparr>next_id := 5\<rparr>" "''u1''" 3]
  show ?thesis
    by (simp add: e ids_def) (simp add: empty_store_def)
qed

subsection \<open>The order of the validations\<close>

text \<open>
  Claim C3 says that \<^verbatim>\<open>create_reservation\<close> rejects at the first check that fails, and
  that the first check, the parsing of the date, the start time and the end time, fails
  with the invalid-format message carrying the offending string. For the start time
  \<^verbatim>\<open>2147483648:00\<close> the date parses, the start time is not a time, and the call
  does not return that message: \<^verbatim>\<open>time(hour, minute)\<close> raises OverflowError, which
  neither line 47 nor line 100 catches, and the exception leaves the function.
\<close>

theorem huge_hour_raises_instead_of_rejecting:
  "parse_date ''2099-01-01'' = Inr \<lparr>year = 2099, month = 1, day = 1\<rparr>
   \<and> parse_time ''2147483648:00'' = Inl OverflowError
   \<and> fst (create_reservation Written now0 empty_store ''u1'' 3
             ''2099-01-01'' ''2147483648:00'' ''15:00'') = Inl OverflowError
   \<and> fst (create_reservation Written now0 empty_store ''u1'' 3
             ''2099-01-01'' ''2147483648:00'' ''15:00'')
       \<noteq> Inr (False, TimeFormat ''2147483648:00'')"
  by (simp add: create_reservation_def parse_request_def parse_samples)

text \<open>
  Where no exception leaves the call, the checks come in the order of the source: a
  parse that raises ValueError gives the invalid-format message carrying that string;
  then a slot that starts in the past gives the past-time message; then a slot that is
  not one hour on the hour gives the slot-shape message; then the scan gives the
  slot-conflict message at the first stored reservation of the same classroom and date
  string that overlaps, when it gets that far. When all checks pass the call succeeds. A
  request for a date before today whose strings parse is rejected with the past-time
  message. The state is unchanged by every rejection.
\<close>

lemma checks_in_order:
  "(\<forall>m. parse_date d = Inl (ValueError m) \<longrightarrow>
      create_reservation w now s uid cid d st en = (Inr (False, DateFormat d), s))
   \<and> (\<forall>dobj m. parse_date d = Inr dobj \<and> parse_time st = Inl (ValueError m) \<longrightarrow>
      create_reservation w now s uid cid d st en = (Inr (False, TimeFormat st), s))
   \<and> (\<forall>dobj so m. parse_date d = Inr dobj \<and> parse_time st = Inr so
        \<and> parse_time en = Inl (ValueError m) \<longrightarrow>
      create_reservation w now s uid cid d st en = (Inr (False, TimeFormat en), s))
   \<and> (\<forall>dobj so eo. parse_date d = Inr dobj \<and> parse_time st = Inr so
        \<and> parse_time en = Inr eo \<longrightarrow>
      (is_past_datetime now dobj so \<longrightarrow>
         create_reservation w now s uid cid d st en = (Inr (False, PastTime), s))
      \<and> (\<not> is_past_datetime now dobj so \<and> \<not> is_valid_time_slot so eo \<longrightarrow>
         create_reservation w now s uid cid d st en = (Inr (False, SlotShape), s))
      \<and> (\<not> is_past_datetime now dobj so \<and> is_valid_time_slot so eo
          \<and> (\<exists>pre r post. map snd (RESERVATIONS s) = pre @ r # post
                \<and> (\<forall>r' \<in> set pre. passes cid d so eo r') \<and> collides cid d so eo r) \<longrightarrow>
         create_reservation w now s uid cid d st en = (Inr (False, SlotConflict), s))
      \<and> (\<not> is_past_datetime now dobj so \<and> is_valid_time_slot so eo
          \<and> (\<forall>r \<in> set (map snd (RESERVATIONS s)). passes cid d so eo r) \<longrightarrow>
         fst (create_reservation w now s uid cid d st en) = Inr (True, Created))
      \<and> ((year dobj, month dobj, day dobj) < (dt_year now, dt_month now, dt_day now) \<longrightarrow>
         create_reservation w now s uid cid d st en = (Inr (False, PastTime), s)))"
proof -
  have c1: "create_reservation w now s uid cid d st en = (Inr (False, DateFormat d), s)"
    if "parse_date d = Inl (ValueError m)" for m
    using that parse_date_error [OF that]
    by (simp add: create_reservation_def parse_request_def)
  have c2: "create_reservation w now s uid cid d st en = (Inr (False, TimeFormat st), s)"
    if "parse_date d = Inr dobj" "parse_time st = Inl (ValueError m)" for dobj m
    using that parse_time_error [OF that(2)]
    by (simp add: create_reservation_def parse_request_def)
  have c3: "create_reservation w now s uid cid d st en = (Inr (False, TimeFormat en), s)"
    if "parse_date d = Inr dobj" "parse_time st = Inr so" "parse_time en = Inl (ValueError m)"
    for dobj so m
    using that parse_time_error [OF that(3)]
    by (simp add: create_reservation_def parse_request_def)
  have c4: "create_reservation w now s uid cid d st en = (Inr (False, PastTime), s)"
    if "parse_date d = Inr dobj" "parse_time st = Inr so" "parse_time en = Inr eo"
      "is_past_datetime now dobj so" for dobj so eo
    using that by (simp add: create_reservation_def parse_request_def)
  have c5: "create_reservation w now s uid cid d st en = (Inr (False, SlotShape), s)"
    if "parse_date d = Inr dobj" "parse_time st = Inr so" "parse_time en = Inr eo"
      "\<not> is_past_datetime now dobj so" "\<not> is_valid_time_slot so eo" for dobj so eo
    using that by (simp add: create_reservation_def parse_request_def)
  have c6: "create_reservation w now s uid cid d st en = (Inr (False, SlotConflict), s)"
    if "parse_date d = Inr dobj" "parse_time st = Inr so" "parse_time en = Inr eo"
      "\<not> is_past_datetime now dobj so" "is_valid_time_slot so eo"
      "map snd (RESERVATIONS s) = pre @ r # post"
      "\<forall>r' \<in> set pre. passes cid d so eo r'" "collides cid d so eo r"
    for dobj so eo pre r post
  proof -
    from find_conflict_first [OF that(7) that(8), of post] that(6)
    have "find_conflict cid d so eo (map snd (RESERVATIONS s)) = Inr True" by simp
    with that(1-5) show ?thesis
      by (simp add: create_reservation_def parse_request_def)
  qed
  have c7: "fst (create_reservation w now s uid cid d st en) = Inr (True, Created)"
    if "parse_date d = Inr dobj" "parse_time st = Inr so" "parse_time en = Inr eo"
      "\<not> is_past_datetime now dobj so" "is_valid_time_slot so eo"
      "\<forall>r \<in> set (map snd (RESERVATIONS s)). passes cid d so eo r"
    for dobj so eo
  proof -
    from that(6) have "find_conflict cid d so eo (map snd (RESERVATIONS s)) = Inr False"
      by (simp only: find_conflict_clear)
    with that(1-5) show ?thesis
      by (simp add: create_reservation_def parse_request_def Let_def)
  qed
  have c8: "create_reservation w now s uid cid d st en = (Inr (False, PastTime), s)"
    if "parse_date d = Inr dobj" "parse_time st = Inr so" "parse_time en = Inr eo"
      "(year dobj, month dobj, day dobj) < (dt_year now, dt_month now, dt_day now)"
    for dobj so eo
    using c4 [OF that(1-3) past_date_is_past [OF that(4)]] .
  show ?thesis
  proof (intro conjI allI impI, goal_cases)
    case 1 then show ?case using c1 by blast
  next
    case 2 then show ?case using c2 by blast
  next
    case 3 then show ?case using c3 by blast
  next
    case 4 then show ?case using c4 by blast
  next
    case 5 then show ?case using c5 by blast
  next
    case 6 then show ?case using c6 by blast
  next
    case 7 then show ?case using c7 by blast
  next
    case 8 then show ?case using c8 by blast
  qed
qed


lemma checks_in_order_example:
  "create_reservation Written now0 booked ''u3'' 3 ''2099-13-01'' ''25:00'' ''15:00''
     = (Inr (False, DateFormat ''2099-13-01''), booked)
   \<and> create_reservation Written now0 booked ''u3'' 3 ''2020-01-01'' ''25:00'' ''15:00''
     = (Inr (False, TimeFormat ''25:00''), booked)
   \<and> create_reservation Written now0 booked ''u3'' 3 ''2020-01-01'' ''14:30'' ''25:00''
     = (Inr (False, TimeFormat ''25:00''), booked)
   \<and> create_reservation Written now0 booked ''u3'' 3 ''2020-01-01'' ''14:30'' ''15:30''
     = (Inr (False, PastTime), booked)
   \<and> create_reservation Written now0 booked ''u3'' 3 ''2099-01-01'' ''14:30'' ''15:30''
     = (Inr (False, SlotShape), booked)
   \<and> create_reservation Written now0 booked ''u3'' 3 ''2099-01-01'' ''15:00'' ''16:00''
     = (Inr (False, SlotConflict), booked)"
proof -
  note p = parse_samples
  have a: "create_reservation Written now0 booked ''u3'' 3 ''2099-13-01'' ''25:00'' ''15:00''
     = (Inr (False, DateFormat ''2099-13-01''), booked)"
    using checks_in_order
      [of "''2099-13-01''" Written now0 booked "''u3''" 3 "''25:00''" "''15:00''"] p(3)
    by blast
  have b: "create_reservation Written now0 booked ''u3'' 3 ''2020-01-01'' ''25:00'' ''15:00''
     = (Inr (False, TimeFormat ''25:00''), booked)"
    using checks_in_order
      [of "''2020-01-01''" Written now0 booked "''u3''" 3 "''25:00''" "''15:00''"] p(2) p(11)
    by blast
  have c: "create_reservation Written now0 booked ''u3'' 3 ''2020-01-01'' ''14:30'' ''25:00''
     = (Inr (False, TimeFormat ''25:00''), booked)"
    using checks_in_order
      [of "''2020-01-01''" Written now0 booked "''u3''" 3 "''14:30''" "''25:00''"]
      p(2) p(7) p(11)
    by blast
  have d: "create_reservation Written now0 booked ''u3'' 3 ''2020-01-01'' ''14:30'' ''15:30''
     = (Inr (False, PastTime), booked)"
    using checks_in_order
      [of "''2020-01-01''" Written now0 booked "''u3''" 3 "''14:30''" "''15:30''"]
      p(2) p(7) p(8) past_2020 [of "at 14 30"]
    by blast
  have shape: "\<not> is_valid_time_slot (at 14 30) (at 15 30)"
    by (simp add: is_valid_time_slot_def at_def)
  have e: "create_reservation Written now0 booked ''u3'' 3 ''2099-01-01'' ''14:30'' ''15:30''
     = (Inr (False, SlotShape), booked)"
    using checks_in_order
      [of "''2099-01-01''" Written now0 booked "''u3''" 3 "''14:30''" "''15:30''"]
      p(1) p(7) p(8) not_past_2099 [of "at 14 30"] shape
    by blast
  have hour: "is_valid_time_slot (at 15 0) (at 16 0)"
    by (simp add: is_valid_time_slot_def at_def)
  have scan: "\<exists>pre r post. map snd (RESERVATIONS booked) = pre @ r # post
      \<and> (\<forall>r' \<in> set pre. passes 3 ''2099-01-01'' (at 15 0) (at 16 0) r')
      \<and> collides 3 ''2099-01-01'' (at 15 0) (at 16 0) r"
  proof (intro exI conjI)
    show "map snd (RESERVATIONS booked) = [slot_14 ''u1'' 3] @
        \<lparr>user_id = ''u2'', classroom_id = 3, date = ''2099-01-01'',
         start_time = ''15:00'', end_time = ''16:00''\<rparr> # []"
      by (simp add: booked_def slot_14_def)
    show "\<forall>r' \<in> set [slot_14 ''u1'' 3]. passes 3 ''2099-01-01'' (at 15 0) (at 16 0) r'"
      by (simp add: passes_iff slot_14_def p is_time_overlap_def time_to_minutes_def at_def)
    show "collides 3 ''2099-01-01'' (at 15 0) (at 16 0)
        \<lparr>user_id = ''u2'', classroom_id = 3, date = ''2099-01-01'',
         start_time = ''15:00'', end_time = ''16:00''\<rparr>"
      by (simp add: collides_iff p is_time_overlap_def time_to_minutes_def at_def)
  qed
  have f: "create_reservation Written now0 booked ''u3'' 3 ''2099-01-01'' ''15:00'' ''16:00''
     = (Inr (False, SlotConflict), booked)"
    using checks_in_order
      [of "''2099-01-01''" Written now0 booked "''u3''" 3 "''15:00''" "''16:00''"]
      p(1) p(5) p(6) not_past_2099 [of "at 15 0"] hour scan
    by blast
  from a b c d e f show ?thesis by blast
qed

subsection \<open>Calls that raise\<close>

text \<open>
  Claim C4 says that \<^verbatim>\<open>create_reservation\<close> returns a result for every argument tuple and
  every store state and never raises. The loop of lines 112 to 120 parses the stored
  time strings outside any \<^verbatim>\<open>try\<close>: with a store loaded from a file whose reservation has
  the start time \<^verbatim>\<open>2pm\<close>, a well-formed request for the same classroom and date leaves
  the function with the ValueError of line 48. (A second way out is the OverflowError
  of \<^verbatim>\<open>time(hour, minute)\<close> for an hour beyond 32 bits, lemma
  \<open>create_reservation_raises_on_huge_hour\<close>; where neither happens the call returns, lemma
  \<open>create_reservation_returns\<close>.)
\<close>

theorem create_reservation_raises_on_stored_text:
  "fst (create_reservation Written now0 (startup legacy_file) ''u1'' 3
          ''2099-01-01'' ''14:00'' ''15:00'')
     = Inl (ValueError (TimeFormat ''2pm''))"
  by (simp add: create_reservation_def parse_request_def parse_samples not_past_2099
      is_valid_time_slot_def at_def startup_def load_reservations_def legacy_file_def)

subsection \<open>No double booking\<close>

text \<open>
  Claim C1 says that no sequence of operations leads to two reservations of one
  classroom and date string that overlap. \<^verbatim>\<open>_is_valid_time_slot\<close> accepts the slot
  23:00 to 00:00 as the hour after 23:00 (line 69), but \<^verbatim>\<open>_is_time_overlap\<close> compares
  minutes since midnight (line 84), where this slot ends at minute 0 and overlaps
  nothing, itself included. From the empty store two calls of
  \<^verbatim>\<open>create_reservation\<close> for classroom 3 on 2099-01-01 from 23:00 to 00:00 both succeed,
  and the store holds the same hour twice.
\<close>

theorem same_hour_booked_twice:
  "RESERVATIONS empty_store = []
   \<and> fst (create_reservation Written now0 empty_store ''u1'' 3 ''2099-01-01'' ''23:00'' ''00:00'')
       = Inr (True, Created)
   \<and> fst (create_reservation Written now0
            (snd (create_reservation Written now0 empty_store ''u1'' 3
                    ''2099-01-01'' ''23:00'' ''00:00''))
            ''u2'' 3 ''2099-01-01'' ''23:00'' ''00:00'')
       = Inr (True, Created)
   \<and> RESERVATIONS late_night =
       [(1, \<lparr>user_id = ''u1'', classroom_id = 3, date = ''2099-01-01'',
             start_time = ''23:00'', end_time = ''00:00''\<rparr>),
        (2, \<lparr>user_id = ''u2'', classroom_id = 3, date = ''2099-01-01'',
             start_time = ''23:00'', end_time = ''00:00''\<rparr>)]
   \<and> slots_overlap
        \<lparr>user_id = ''u1'', classroom_id = 3, date = ''2099-01-01'',
         start_time = ''23:00'', end_time = ''00:00''\<rparr>
        \<lparr>user_id = ''u2'', classroom_id = 3, date = ''2099-01-01'',
         start_time = ''23:00'', end_time = ''00:00''\<rparr>"
proof -
  have a: "RESERVATIONS empty_store = []" by (simp add: empty_store_def)
  have b: "fst (create_reservation Written now0 empty_store ''u1'' 3
                  ''2099-01-01'' ''23:00'' ''00:00'') = Inr (True, Created)"
    by (simp add: empty_store_def create_reservation_def parse_request_def parse_samples
        not_past_2099 is_valid_time_slot_def at_def Let_def)
  have c: "fst (create_reservation Written now0
            (snd (create_reservation Written now0 empty_store ''u1'' 3
                    ''2099-01-01'' ''23:00'' ''00:00''))
            ''u2'' 3 ''2099-01-01'' ''23:00'' ''00:00'') = Inr (True, Created)"
    by (simp add: empty_store_def create_reservation_def parse_request_def parse_samples
        not_past_2099 is_valid_time_slot_def at_def is_time_overlap_def time_to_minutes_def
        Let_def)
  have d: "slots_overlap
        \<lparr>user_id = ''u1'', classroom_id = 3, date = ''2099-01-01'',
         start_time = ''23:00'', end_time = ''00:00''\<rparr>
        \<lparr>user_id = ''u2'', classroom_id = 3, date = ''2099-01-01'',
         start_time = ''23:00'', end_time = ''00:00''\<rparr>"
    by (simp add: slots_overlap_def slot_end_def parse_samples time_to_minutes_def at_def)
  from a b c d late_night_store show ?thesis by simp
qed

text \<open>
  What the operations do preserve is the property as the scan reads it: no two entries
  of one classroom and date string for which \<^verbatim>\<open>_is_time_overlap\<close> holds of the parsed
  times (\<open>no_double_booking\<close>), and likewise no two whose intervals of minutes since
  midnight share a minute (\<open>no_shared_minute\<close>).
\<close>

lemma scan_property_preserved:
  "(no_double_booking s \<longrightarrow>
      no_double_booking (snd (create_reservation w now s uid cid d st en))
      \<and> no_double_booking (snd (cancel_reservation w s rid uid'))
      \<and> no_double_booking (snd (delete_reservation w s rid))
      \<and> no_double_booking (run s qs))
   \<and> (no_shared_minute s \<longrightarrow>
      no_shared_minute (snd (create_reservation w now s uid cid d st en))
      \<and> no_shared_minute (snd (cancel_reservation w s rid uid'))
      \<and> no_shared_minute (snd (delete_reservation w s rid))
      \<and> no_shared_minute (run s qs))"
proof (intro conjI impI)
  assume inv: "no_double_booking s"
  from perform_no_double_booking [OF inv, of "Create w now uid cid d st en"]
  show "no_double_booking (snd (create_reservation w now s uid cid d st en))" by simp
  from perform_no_double_booking [OF inv, of "Cancel w rid uid'"]
  show "no_double_booking (snd (cancel_reservation w s rid uid'))" by simp
  from perform_no_double_booking [OF inv, of "Delete w rid"]
  show "no_double_booking (snd (delete_reservation w s rid))" by simp
  from run_no_double_booking [OF inv]
  show "no_double_booking (run s qs)" .
next
  assume inv: "no_shared_minute s"
  from perform_no_shared_minute [OF inv, of "Create w now uid cid d st en"]
  show "no_shared_minute (snd (create_reservation w now s uid cid d st en))" by simp
  from perform_no_shared_minute [OF inv, of "Cancel w rid uid'"]
  show "no_shared_minute (snd (cancel_reservation w s rid uid'))" by simp
  from perform_no_shared_minute [OF inv, of "Delete w rid"]
  show "no_shared_minute (snd (delete_reservation w s rid))" by simp
  from run_no_shared_minute [OF inv]
  show "no_shared_minute (run s qs)" .
qed

lemma scan_property_preserved_example:
  "no_double_booking booked
   \<and> no_double_booking (snd (create_reservation Written now0 booked ''u3'' 3
                               ''2099-01-01'' ''16:00'' ''17:00''))
   \<and> no_double_booking (run booked (Cancel Written 1 ''u1'' # rebook))
   \<and> no_shared_minute booked
   \<and> no_shared_minute (run booked (Cancel Written 1 ''u1'' # rebook))"
proof -
  have inv: "no_double_booking booked"
    by (simp add: no_double_booking_def booked_def reservations_overlap_def parse_samples
        is_time_overlap_def time_to_minutes_def at_def)
  have inv': "no_shared_minute booked"
    by (simp add: no_shared_minute_def pairwise_free_def booked_def share_a_minute_def
        parse_samples time_to_minutes_def at_def)
  from inv inv' scan_property_preserved [of booked Written now0 "''u3''" 3 "''2099-01-01''"
      "''16:00''" "''17:00''" 1 "''u1''" "Cancel Written 1 ''u1'' # rebook"]
  show ?thesis by blast
qed

subsection \<open>Ids are not used twice\<close>

text \<open>
  Claim C8. In a state where the counter is above every id in the store, each of
  \<^verbatim>\<open>create_reservation\<close>, \<^verbatim>\<open>cancel_reservation\<close> and \<^verbatim>\<open>delete_reservation\<close> keeps it so
  and does not decrease the counter; a successful creation stores under an id that
  was not in the store. Over any sequence of requests the same holds, every id that
  appears lies from the old counter up to below the new one, and an id that was in the
  store and has been removed is in no later state.
\<close>

theorem ids_never_reused:
  "counter_above_ids s \<longrightarrow>
     (counter_above_ids (snd (create_reservation w now s uid cid d st en))
        \<and> next_id s \<le> next_id (snd (create_reservation w now s uid cid d st en)))
     \<and> (counter_above_ids (snd (cancel_reservation w s rid uid'))
        \<and> next_id s \<le> next_id (snd (cancel_reservation w s rid uid')))
     \<and> (counter_above_ids (snd (delete_reservation w s rid))
        \<and> next_id s \<le> next_id (snd (delete_reservation w s rid)))
     \<and> (\<forall>m. fst (create_reservation w now s uid cid d st en) = Inr (True, m) \<longrightarrow>
           next_id s \<notin> ids s
           \<and> next_id s \<in> ids (snd (create_reservation w now s uid cid d st en)))
     \<and> counter_above_ids (run s qs) \<and> next_id s \<le> next_id (run s qs)
     \<and> (\<forall>i \<in> ids (run s qs). i \<in> ids s \<or> (next_id s \<le> i \<and> i < next_id (run s qs)))
     \<and> (\<forall>i \<in> ids s. i \<notin> ids (run s qs) \<longrightarrow> i \<notin> ids (run (run s qs) qs'))"
proof
  assume inv: "counter_above_ids s"
  from perform_counter_above_ids [OF inv, of "Create w now uid cid d st en"]
    perform_next_id_mono [of s "Create w now uid cid d st en"]
  have a: "counter_above_ids (snd (create_reservation w now s uid cid d st en))
        \<and> next_id s \<le> next_id (snd (create_reservation w now s uid cid d st en))" by simp
  from perform_counter_above_ids [OF inv, of "Cancel w rid uid'"]
    perform_next_id_mono [of s "Cancel w rid uid'"]
  have b: "counter_above_ids (snd (cancel_reservation w s rid uid'))
        \<and> next_id s \<le> next_id (snd (cancel_reservation w s rid uid'))" by simp
  from perform_counter_above_ids [OF inv, of "Delete w rid"]
    perform_next_id_mono [of s "Delete w rid"]
  have c: "counter_above_ids (snd (delete_reservation w s rid))
        \<and> next_id s \<le> next_id (snd (delete_reservation w s rid))" by simp
  have d: "next_id s \<notin> ids s
           \<and> next_id s \<in> ids (snd (create_reservation w now s uid cid d st en))"
    if ok: "fst (create_reservation w now s uid cid d st en) = Inr (True, m)" for m
  proof -
    from create_reservation_outcome [of w now s uid cid d st en] ok
    have "snd (create_reservation w now s uid cid d st en)
        = new_state w s \<lparr>user_id = uid, classroom_id = cid, date = d,
                         start_time = st, end_time = en\<rparr>" by auto
    moreover from inv have "next_id s \<notin> ids s" by (auto simp: counter_above_ids_def)
    ultimately show ?thesis by (simp add: ids_def dom_update)
  qed
  have e: "counter_above_ids (run s qs) \<and> next_id s \<le> next_id (run s qs)"
    using run_counter_above_ids [OF inv, of qs] run_next_id_mono [of s qs] by simp
  have f: "\<forall>i \<in> ids (run s qs). i \<in> ids s \<or> (next_id s \<le> i \<and> i < next_id (run s qs))"
    using run_new_ids [of _ s qs] by blast
  have g: "\<forall>i \<in> ids s. i \<notin> ids (run s qs) \<longrightarrow> i \<notin> ids (run (run s qs) qs')"
  proof (intro ballI impI notI)
    fix i
    assume i: "i \<in> ids s" and gone: "i \<notin> ids (run s qs)"
      and again: "i \<in> ids (run (run s qs) qs')"
    from inv i have "i < next_id s" by (simp add: counter_above_ids_def)
    with run_next_id_mono [of s qs] have "i < next_id (run s qs)" by simp
    with run_new_ids [OF again] gone show False by simp
  qed
  from a b c d e f g
  show "(counter_above_ids (snd (create_reservation w now s uid cid d st en))
        \<and> next_id s \<le> next_id (snd (create_reservation w now s uid cid d st en)))
     \<and> (counter_above_ids (snd (cancel_reservation w s rid uid'))
        \<and> next_id s \<le> next_id (snd (cancel_reservation w s rid uid')))
     \<and> (counter_above_ids (snd (delete_reservation w s rid))
        \<and> next_id s \<le> next_id (snd (delete_reservation w s rid)))
     \<and> (\<forall>m. fst (create_reservation w now s uid cid d st en) = Inr (True, m) \<longrightarrow>
           next_id s \<notin> ids s
           \<and> next_id s \<in> ids (snd (create_reservation w now s uid cid d st en)))
     \<and> counter_above_ids (run s qs) \<and> next_id s \<le> next_id (run s qs)
     \<and> (\<forall>i \<in> ids (run s qs). i \<in> ids s \<or> (next_id s \<le> i \<and> i < next_id (run s qs)))
     \<and> (\<forall>i \<in> ids s. i \<notin> ids (run s qs) \<longrightarrow> i \<notin> ids (run (run s qs) qs'))"
    by blast
qed

theorem ids_never_reused_witness:
  "counter_above_ids booked
   \<and> 1 \<in> ids booked
   \<and> 1 \<notin> ids (run booked [Cancel Written 1 ''u1''])
   \<and> 1 \<notin> ids (run (run booked [Cancel Written 1 ''u1'']) rebook)
   \<and> counter_above_ids (run booked [Cancel Written 1 ''u1''])
   \<and> next_id booked \<le> next_id (run booked [Cancel Written 1 ''u1''])"
proof -
  have inv: "counter_above_ids booked"
    by (simp add: counter_above_ids_def ids_def booked_def)
  have i: "1 \<in> ids booked" by (simp add: ids_def booked_def)
  have gone: "1 \<notin> ids (run booked [Cancel Written 1 ''u1''])"
    by (simp add: run_def cancel_reservation_def booked_def ids_def)
  from inv i gone ids_never_reused [of booked Written now0 "''u3''" 3 "''2099-01-01''"
      "''16:00''" "''17:00''" 1 "''u1''" "[Cancel Written 1 ''u1'']" rebook]
  show ?thesis by blast
qed

subsection \<open>Reservations of a classroom\<close>




text \<open>Rows that tie: the slot 23:00 to 00:00 booked twice, as in the store of claim C1.\<close>

lemma rows_tie_on_the_wrap_slot:
  "map (start_time \<circ> snd) (get_classroom_reservations late_night 3 (Some ''2099-01-01''))
     = [''23:00'', ''23:00'']"
  by (simp add: get_classroom_reservations_def late_night_store)

end
